theory Spec2Isabelle
  imports Main "HOL-Library.Word" "HOL-Library.Multiset"
begin

section \<open>Expect-CT Lite: the CT validation callback of client.c\<close>

text \<open>
  The development embeds the two functions of \<^verbatim>\<open>client.c\<close> that carry the
  Expect-CT Lite logic: \<^verbatim>\<open>on_ct_validation\<close> (the admission policy) and
  \<^verbatim>\<open>configure_ct_lite_enforcement\<close> (its registration). The OpenSSL calls they make
  are modelled by what OpenSSL documents for them, or taken as parameters.
\<close>

subsection \<open>Data of the OpenSSL interface\<close>

text \<open>
  \<^verbatim>\<open>sct_source_t\<close> of \<^verbatim>\<open>openssl/ct.h\<close>: the channel an SCT was delivered through.
\<close>

datatype sct_source_t =
    SCT_SOURCE_UNKNOWN
  | SCT_SOURCE_TLS_EXTENSION
  | SCT_SOURCE_X509V3_EXTENSION
  | SCT_SOURCE_OCSP_STAPLED_RESPONSE

text \<open>
  An SCT. The callback reads only its source; the other fields are the payload that
  \<^verbatim>\<open>SCT_print\<close> dumps.
\<close>

record SCT =
  sct_version :: int
  sct_log_id :: "8 word list"
  sct_timestamp :: "64 word"
  sct_extensions :: "8 word list"
  sct_signature :: "8 word list"
  sct_source :: sct_source_t

definition SCT_get_source :: "SCT \<Rightarrow> sct_source_t" where
  "SCT_get_source sct = sct_source sct"

text \<open>
  \<^verbatim>\<open>const STACK_OF(SCT) *\<close>: a pointer that may be \<^verbatim>\<open>NULL\<close> (\<open>None\<close>) to a stack
  whose slots are pointers that may be \<^verbatim>\<open>NULL\<close> themselves. The stack keeps its
  element count in a C \<^verbatim>\<open>int\<close>, so the length of the list is a value of that type.
\<close>

type_synonym STACK_OF_SCT = "SCT option list option"

text \<open>\<^verbatim>\<open>sk_SCT_num\<close>: the number of elements, or \<open>-1\<close> for a \<^verbatim>\<open>NULL\<close> stack.\<close>

definition sk_SCT_num :: "STACK_OF_SCT \<Rightarrow> int" where
  "sk_SCT_num scts = (case scts of None \<Rightarrow> - 1 | Some xs \<Rightarrow> int (length xs))"

text \<open>
  \<^verbatim>\<open>sk_SCT_value\<close>: the element at an index, \<^verbatim>\<open>NULL\<close> for a \<^verbatim>\<open>NULL\<close> stack and
  for an index out of range.
\<close>

definition sk_SCT_value :: "STACK_OF_SCT \<Rightarrow> int \<Rightarrow> SCT option" where
  "sk_SCT_value scts i =
     (case scts of
        None \<Rightarrow> None
      | Some xs \<Rightarrow> if i < 0 \<or> int (length xs) \<le> i then None else xs ! nat i)"

text \<open>The only way the callback can fail: \<^verbatim>\<open>assert(sct)\<close> aborts the process.\<close>

datatype error = AssertionFailed

subsection \<open>Diagnostic output\<close>

text \<open>
  Standard error is the list of the writes made to it, oldest first: one entry for each
  \<^verbatim>\<open>fprintf\<close> and each \<^verbatim>\<open>SCT_print\<close>. The conversion \<^verbatim>\<open>%d\<close> prints a C
  \<^verbatim>\<open>int\<close> in decimal.
\<close>

definition digit_char :: "nat \<Rightarrow> char" where
  "digit_char d = char_of (48 + d)"

fun dec_nat :: "nat \<Rightarrow> string" where
  "dec_nat n = (if n < 10 then [digit_char n] else dec_nat (n div 10) @ [digit_char (n mod 10)])"

declare dec_nat.simps [simp del]

definition printf_d :: "int \<Rightarrow> string" where
  "printf_d i = (if i < 0 then CHR ''-'' # dec_nat (nat (- i)) else dec_nat (nat i))"

subsection \<open>The callback\<close>

text \<open>
  The \<^verbatim>\<open>switch\<close> over the source of one SCT: the line it prints and the new value of
  \<^verbatim>\<open>num_signed_sct\<close>.
\<close>

fun switch_source :: "sct_source_t \<Rightarrow> string list \<Rightarrow> int \<Rightarrow> string list \<times> int" where
  "switch_source SCT_SOURCE_X509V3_EXTENSION err num_signed_sct =
     (err @ [''    ==> Got an SCT delivered via X509v3 (CA-signed)\<newline>''], num_signed_sct + 1)"
| "switch_source SCT_SOURCE_OCSP_STAPLED_RESPONSE err num_signed_sct =
     (err @ [''    ==> Got an SCT delivered via OCSP (CA-signed)\<newline>''], num_signed_sct + 1)"
| "switch_source SCT_SOURCE_TLS_EXTENSION err num_signed_sct =
     (err @ [''    ==> Got an SCT delivered via TLS extension (not CA-signed)\<newline>''],
      num_signed_sct)"
| "switch_source _ err num_signed_sct =
     (err @ [''    ==> Got an SCT delivered via unknown source (assuming not CA-signed)\<newline>''],
      num_signed_sct)"

text \<open>
  The \<^verbatim>\<open>for\<close> loop, from index \<open>i\<close> on. \<open>SCT_print\<close> is the text OpenSSL's
  \<^verbatim>\<open>SCT_print(sct, bio, 2, NULL)\<close> writes for an SCT; \<open>stderr_bio\<close> says whether
  \<^verbatim>\<open>BIO_new_fp\<close> returned a BIO. The loop returns the output and either the assertion
  failure or the final \<^verbatim>\<open>num_signed_sct\<close>.
\<close>

function for_loop ::
  "(SCT \<Rightarrow> string) \<Rightarrow> bool \<Rightarrow> STACK_OF_SCT \<Rightarrow> int \<Rightarrow> int \<Rightarrow> int \<Rightarrow> string list
     \<Rightarrow> string list \<times> (error + int)" where
  "for_loop SCT_print stderr_bio scts num_sct i num_signed_sct err =
     (if i < num_sct then
        (case sk_SCT_value scts i of
           None \<Rightarrow> (err, Inl AssertionFailed)
         | Some sct \<Rightarrow>
             (case switch_source (SCT_get_source sct)
                     (if stderr_bio then err @ [SCT_print sct, ''\<newline>''] else err)
                     num_signed_sct of
                (err', num_signed_sct') \<Rightarrow>
                  for_loop SCT_print stderr_bio scts num_sct (i + 1) num_signed_sct' err'))
      else (err, Inr num_signed_sct))"
  by pat_completeness auto
termination
  by (relation "measure (\<lambda>(p, b, scts, num_sct, i, k, err). nat (num_sct - i))") auto

declare for_loop.simps [simp del]

text \<open>
  \<^verbatim>\<open>on_ct_validation\<close>. The arguments \<^verbatim>\<open>ctx\<close> and \<^verbatim>\<open>arg\<close> are never read and
  are left out. The result is the output on standard error and the returned \<^verbatim>\<open>int\<close>
  (\<open>1\<close> accepts, \<open>0\<close> rejects), or the assertion failure.
\<close>

definition on_ct_validation ::
  "(SCT \<Rightarrow> string) \<Rightarrow> bool \<Rightarrow> STACK_OF_SCT \<Rightarrow> string list \<times> (error + int)" where
  "on_ct_validation SCT_print stderr_bio scts =
     (let num_sct = sk_SCT_num scts in
      if num_sct \<le> 0 then
        ([''No SCTs received, not considering this connection valid\<newline>''], Inr 0)
      else
        (case for_loop SCT_print stderr_bio scts num_sct 0 0 [''SCTs:\<newline>''] of
           (err, Inl e) \<Rightarrow> (err, Inl e)
         | (err, Inr num_signed_sct) \<Rightarrow>
             if num_signed_sct \<le> 0 then
               (err @ [''No SCTs were received via a CA-signed delivery method, not considering this connection valid\<newline>''],
                Inr 0)
             else
               (err @
                  [''Got '' @ printf_d num_sct @ '' SCTs of which '' @ printf_d num_signed_sct @
                     '' were via CA-signed channels, considering this connection valid\<newline>'',
                   ''SCT signatures have NOT been validated\<newline>''],
                Inr 1)))"

subsection \<open>Registration\<close>

text \<open>\<^verbatim>\<open>SSL_CT_VALIDATION_STRICT\<close> of \<^verbatim>\<open>openssl/ssl.h\<close>.\<close>

definition SSL_CT_VALIDATION_STRICT :: int where
  "SSL_CT_VALIDATION_STRICT = 1"

text \<open>
  \<^verbatim>\<open>configure_ct_lite_enforcement\<close>. The two OpenSSL calls are parameters: each takes
  the \<^verbatim>\<open>SSL_CTX\<close> and returns its \<^verbatim>\<open>int\<close> result with the updated
  \<^verbatim>\<open>SSL_CTX\<close>. The callback that is installed is \<open>on_ct_validation\<close>.
\<close>

definition configure_ct_lite_enforcement ::
  "('ctx \<Rightarrow> int \<Rightarrow> int \<times> 'ctx) \<Rightarrow>
   ('ctx \<Rightarrow> ((SCT \<Rightarrow> string) \<Rightarrow> bool \<Rightarrow> STACK_OF_SCT \<Rightarrow> string list \<times> (error + int))
      \<Rightarrow> int \<times> 'ctx) \<Rightarrow>
   'ctx \<Rightarrow> int \<times> 'ctx" where
  "configure_ct_lite_enforcement SSL_CTX_enable_ct SSL_CTX_set_ct_validation_callback ctx =
     (case SSL_CTX_enable_ct ctx SSL_CT_VALIDATION_STRICT of
        (r1, ctx1) \<Rightarrow>
          if r1 = 0 then (0, ctx1)
          else
            (case SSL_CTX_set_ct_validation_callback ctx1 on_ct_validation of
               (r2, ctx2) \<Rightarrow> if r2 = 0 then (0, ctx2) else (1, ctx2)))"

subsection \<open>The callback as a function of the list of slots\<close>

text \<open>
  The definitions of this subsection are not translations of code: they say in terms of
  lists what the loop computes, and the lemmas below prove that the loop computes it.
\<close>

text \<open>The sources that the \<^verbatim>\<open>switch\<close> counts as CA-signed.\<close>

definition ca_signed :: "sct_source_t \<Rightarrow> bool" where
  "ca_signed src =
     (src = SCT_SOURCE_X509V3_EXTENSION \<or> src = SCT_SOURCE_OCSP_STAPLED_RESPONSE)"

fun signed_slot :: "SCT option \<Rightarrow> bool" where
  "signed_slot None = False"
| "signed_slot (Some sct) = ca_signed (sct_source sct)"

text \<open>The line that states the classification outcome of an SCT.\<close>

definition classification_line :: "sct_source_t \<Rightarrow> string" where
  "classification_line src =
     (case src of
        SCT_SOURCE_X509V3_EXTENSION \<Rightarrow>
          ''    ==> Got an SCT delivered via X509v3 (CA-signed)\<newline>''
      | SCT_SOURCE_OCSP_STAPLED_RESPONSE \<Rightarrow>
          ''    ==> Got an SCT delivered via OCSP (CA-signed)\<newline>''
      | SCT_SOURCE_TLS_EXTENSION \<Rightarrow>
          ''    ==> Got an SCT delivered via TLS extension (not CA-signed)\<newline>''
      | SCT_SOURCE_UNKNOWN \<Rightarrow>
          ''    ==> Got an SCT delivered via unknown source (assuming not CA-signed)\<newline>'')"

text \<open>
  The diagnostic record of one SCT: the dump of its fields and an empty line when there
  is a BIO to print to, then its classification line.
\<close>

definition diagnostic_record :: "(SCT \<Rightarrow> string) \<Rightarrow> bool \<Rightarrow> SCT \<Rightarrow> string list" where
  "diagnostic_record SCT_print stderr_bio sct =
     (if stderr_bio then [SCT_print sct, ''\<newline>''] else []) @
     [classification_line (sct_source sct)]"

text \<open>The loop as a recursion over the slots that are left.\<close>

fun run_slots ::
  "(SCT \<Rightarrow> string) \<Rightarrow> bool \<Rightarrow> SCT option list \<Rightarrow> int \<Rightarrow> string list
     \<Rightarrow> string list \<times> (error + int)" where
  "run_slots p b [] k err = (err, Inr k)"
| "run_slots p b (None # ys) k err = (err, Inl AssertionFailed)"
| "run_slots p b (Some sct # ys) k err =
     run_slots p b ys (if ca_signed (sct_source sct) then k + 1 else k)
       (err @ diagnostic_record p b sct)"

text \<open>
  An SCT collection of the specification is a sequence of SCTs; \<open>stack_of\<close> is the
  stack that holds it: a stack that is there, with every slot filled.
\<close>

definition stack_of :: "SCT list \<Rightarrow> STACK_OF_SCT" where
  "stack_of xs = Some (map Some xs)"

text \<open>The number of SCTs of a collection that came through a CA-signed channel.\<close>

definition num_signed :: "SCT list \<Rightarrow> int" where
  "num_signed xs = int (length (filter (\<lambda>sct. ca_signed (sct_source sct)) xs))"

text \<open>What the callback prints after the loop, for \<open>n\<close> SCTs of which \<open>k\<close> are CA-signed.\<close>

definition final_lines :: "int \<Rightarrow> int \<Rightarrow> string list" where
  "final_lines n k =
     (if k \<le> 0 then
        [''No SCTs were received via a CA-signed delivery method, not considering this connection valid\<newline>'']
      else
        [''Got '' @ printf_d n @ '' SCTs of which '' @ printf_d k @
           '' were via CA-signed channels, considering this connection valid\<newline>'',
         ''SCT signatures have NOT been validated\<newline>''])"

subsection \<open>Concrete inputs\<close>

text \<open>
  An SCT with a given source and timestamp, and a stand-in for \<^verbatim>\<open>SCT_print\<close> that
  prints the timestamp only; they are used where a statement is evaluated on an input.
\<close>

definition example_sct :: "sct_source_t \<Rightarrow> 64 word \<Rightarrow> SCT" where
  "example_sct src ts =
     \<lparr>sct_version = 0, sct_log_id = [], sct_timestamp = ts, sct_extensions = [],
      sct_signature = [], sct_source = src\<rparr>"

definition print_timestamp :: "SCT \<Rightarrow> string" where
  "print_timestamp sct = ''  Timestamp   : '' @ dec_nat (unat (sct_timestamp sct))"

text \<open>
  Two stand-ins for the OpenSSL calls of the registration, on an \<^verbatim>\<open>SSL_CTX\<close> that
  is the list of the steps applied to it: one that succeeds and one that fails.
\<close>

definition step_ok :: "string \<Rightarrow> string list \<Rightarrow> 'a \<Rightarrow> int \<times> string list" where
  "step_ok name ctx x = (1, ctx @ [name])"

definition step_fails :: "string list \<Rightarrow> 'a \<Rightarrow> int \<times> string list" where
  "step_fails ctx x = (0, ctx)"

section \<open>What the loop computes\<close>

lemma switch_source_eq:
  "switch_source src err k =
     (err @ [classification_line src], if ca_signed src then k + 1 else k)"
  by (cases src) (simp_all add: classification_line_def ca_signed_def)

text \<open>From index \<open>i\<close> on, the loop runs over the slots \<open>drop i ys\<close>.\<close>

lemma for_loop_run_slots:
  "0 \<le> i \<Longrightarrow>
   for_loop p b (Some ys) (int (length ys)) i k err = run_slots p b (drop (nat i) ys) k err"
proof (induction "length ys - nat i" arbitrary: i k err)
  case 0
  then have "\<not> i < int (length ys)" by linarith
  moreover from 0 have "drop (nat i) ys = []" by simp
  ultimately show ?case by (simp add: for_loop.simps)
next
  case (Suc n)
  then have lt: "i < int (length ys)" and lt': "nat i < length ys" by linarith+
  have dr: "drop (nat i) ys = ys ! nat i # drop (nat (i + 1)) ys"
    using lt' Suc.prems by (simp add: Cons_nth_drop_Suc nat_add_distrib)
  have val: "sk_SCT_value (Some ys) i = ys ! nat i"
    using lt Suc.prems by (simp add: sk_SCT_value_def)
  have n: "n = length ys - nat (i + 1)" using Suc.hyps(2) Suc.prems by linarith
  have nn: "0 \<le> i + 1" using Suc.prems by simp
  show ?case
  proof (cases "ys ! nat i")
    case None
    then show ?thesis using lt val dr by (simp add: for_loop.simps)
  next
    case (Some sct)
    have "for_loop p b (Some ys) (int (length ys)) i k err =
            for_loop p b (Some ys) (int (length ys)) (i + 1)
              (if ca_signed (sct_source sct) then k + 1 else k)
              (err @ diagnostic_record p b sct)"
      using lt val Some
      by (subst for_loop.simps)
         (simp add: switch_source_eq SCT_get_source_def diagnostic_record_def)
    also have "\<dots> = run_slots p b (drop (nat (i + 1)) ys)
              (if ca_signed (sct_source sct) then k + 1 else k)
              (err @ diagnostic_record p b sct)"
      by (rule Suc.hyps(1)[OF n nn])
    finally show ?thesis using dr Some by simp
  qed
qed

lemma run_slots_verdict:
  "snd (run_slots p b ys k err) =
     (if None \<in> set ys then Inl AssertionFailed
      else Inr (k + int (length (filter signed_slot ys))))"
proof (induction ys arbitrary: k err)
  case Nil
  show ?case by simp
next
  case (Cons y ys)
  show ?case
  proof (cases y)
    case None
    then show ?thesis by simp
  next
    case (Some sct)
    then show ?thesis by (simp add: Cons.IH)
  qed
qed

lemma run_slots_output:
  "fst (run_slots p b (map Some xs) k err) = err @ concat (map (diagnostic_record p b) xs)"
  by (induction xs arbitrary: k err) simp_all

lemma signed_slot_Some:
  "signed_slot \<circ> Some = (\<lambda>sct. ca_signed (sct_source sct))"
  by (rule ext) simp

text \<open>
  The counter \<^verbatim>\<open>num_signed_sct\<close> ends between \<open>0\<close> and \<^verbatim>\<open>num_sct\<close>: as
  \<^verbatim>\<open>num_sct\<close> is a value of the C type \<^verbatim>\<open>int\<close>, neither the counter nor the index
  leaves the range of that type, and the integers of the model are the C values.
\<close>

lemma num_signed_sct_range:
  assumes "for_loop p b (Some ys) (sk_SCT_num (Some ys)) 0 0 err = (err', Inr k)"
  shows "0 \<le> k \<and> k \<le> sk_SCT_num (Some ys)"
proof -
  have "snd (run_slots p b ys 0 err) = Inr k"
    using assms for_loop_run_slots [of 0 p b ys 0 err] by (simp add: sk_SCT_num_def)
  then have "k = int (length (filter signed_slot ys))"
    by (simp add: run_slots_verdict split: if_splits)
  then show ?thesis by (simp add: sk_SCT_num_def)
qed

section \<open>The callback on a stack\<close>

lemma on_ct_validation_NULL:
  "on_ct_validation p b None =
     ([''No SCTs received, not considering this connection valid\<newline>''], Inr 0)"
  by (simp add: on_ct_validation_def sk_SCT_num_def)

lemma on_ct_validation_empty:
  "on_ct_validation p b (Some []) =
     ([''No SCTs received, not considering this connection valid\<newline>''], Inr 0)"
  by (simp add: on_ct_validation_def sk_SCT_num_def)

lemma on_ct_validation_slots:
  assumes "ys \<noteq> []"
  shows "on_ct_validation p b (Some ys) =
     (case run_slots p b ys 0 [''SCTs:\<newline>''] of
        (err, Inl e) \<Rightarrow> (err, Inl e)
      | (err, Inr k) \<Rightarrow>
          (err @ final_lines (int (length ys)) k, if k \<le> 0 then Inr 0 else Inr 1))"
proof -
  have "for_loop p b (Some ys) (int (length ys)) 0 0 [''SCTs:\<newline>''] =
          run_slots p b ys 0 [''SCTs:\<newline>'']"
    using for_loop_run_slots [of 0 p b ys 0] by simp
  then show ?thesis
    using assms
    by (simp add: on_ct_validation_def sk_SCT_num_def final_lines_def
        split: prod.split sum.split)
qed

lemma verdict_slots:
  "snd (on_ct_validation p b (Some ys)) =
     (if ys = [] then Inr 0
      else if None \<in> set ys then Inl AssertionFailed
      else if filter signed_slot ys = [] then Inr 0 else Inr 1)"
proof (cases "ys = []")
  case True
  then show ?thesis by (simp add: on_ct_validation_empty)
next
  case False
  obtain err r where run: "run_slots p b ys 0 [''SCTs:\<newline>''] = (err, r)"
    by (cases "run_slots p b ys 0 [''SCTs:\<newline>'']")
  have r: "r = (if None \<in> set ys then Inl AssertionFailed
                else Inr (int (length (filter signed_slot ys))))"
    using run_slots_verdict [of p b ys 0 "[''SCTs:\<newline>'']"] run by simp
  show ?thesis
    using False by (simp add: on_ct_validation_slots run r)
qed

lemma verdict_collection:
  "snd (on_ct_validation p b (stack_of xs)) = (if num_signed xs = 0 then Inr 0 else Inr 1)"
  by (auto simp add: verdict_slots stack_of_def num_signed_def filter_map signed_slot_Some)

lemma num_signed_pos_iff:
  "num_signed xs \<noteq> 0 \<longleftrightarrow> (\<exists>sct \<in> set xs. ca_signed (sct_source sct))"
  by (simp add: num_signed_def filter_empty_conv)

section \<open>The verdict\<close>

text \<open>
  Claim C1. For every SCT collection that contains at least one SCT whose source is the
  X.509v3 extension or the stapled OCSP response, \<open>on_ct_validation\<close> returns \<open>1\<close>
  (Accept), whatever other SCTs the collection holds.
\<close>

theorem accept_if_ca_signed_present:
  assumes "sct \<in> set xs"
    and "sct_source sct = SCT_SOURCE_X509V3_EXTENSION \<or>
         sct_source sct = SCT_SOURCE_OCSP_STAPLED_RESPONSE"
  shows "snd (on_ct_validation p b (stack_of xs)) = Inr 1"
proof -
  have "\<exists>s \<in> set xs. ca_signed (sct_source s)"
    using assms by (auto simp add: ca_signed_def)
  then have "num_signed xs \<noteq> 0" by (simp add: num_signed_pos_iff)
  then show ?thesis by (simp add: verdict_collection)
qed

theorem accept_if_ca_signed_present_witness:
  "example_sct SCT_SOURCE_OCSP_STAPLED_RESPONSE 1 \<in>
     set [example_sct SCT_SOURCE_OCSP_STAPLED_RESPONSE 1,
          example_sct SCT_SOURCE_TLS_EXTENSION 2,
          example_sct SCT_SOURCE_UNKNOWN 3] \<and>
   sct_source (example_sct SCT_SOURCE_OCSP_STAPLED_RESPONSE 1) =
     SCT_SOURCE_OCSP_STAPLED_RESPONSE \<and>
   snd (on_ct_validation print_timestamp True
          (stack_of [example_sct SCT_SOURCE_OCSP_STAPLED_RESPONSE 1,
                     example_sct SCT_SOURCE_TLS_EXTENSION 2,
                     example_sct SCT_SOURCE_UNKNOWN 3])) = Inr 1"
  using accept_if_ca_signed_present
    [of "example_sct SCT_SOURCE_OCSP_STAPLED_RESPONSE 1"
        "[example_sct SCT_SOURCE_OCSP_STAPLED_RESPONSE 1,
          example_sct SCT_SOURCE_TLS_EXTENSION 2,
          example_sct SCT_SOURCE_UNKNOWN 3]" print_timestamp True]
  by (simp add: example_sct_def)

text \<open>
  Claim C2. For every non-empty SCT collection whose SCTs all have the source TLS
  extension or unknown, the loop ends with \<^verbatim>\<open>num_signed_sct\<close> equal to \<open>0\<close> and
  \<open>on_ct_validation\<close> returns \<open>0\<close> (Reject).
\<close>

theorem reject_if_none_ca_signed:
  assumes "xs \<noteq> []"
    and "\<forall>sct \<in> set xs. sct_source sct = SCT_SOURCE_TLS_EXTENSION \<or>
                         sct_source sct = SCT_SOURCE_UNKNOWN"
  shows "snd (for_loop p b (stack_of xs) (sk_SCT_num (stack_of xs)) 0 0 [''SCTs:\<newline>'']) = Inr 0 \<and>
         snd (on_ct_validation p b (stack_of xs)) = Inr 0"
proof -
  have "\<not> (\<exists>s \<in> set xs. ca_signed (sct_source s))"
    using assms(2) by (auto simp add: ca_signed_def)
  then have zero: "num_signed xs = 0" using num_signed_pos_iff [of xs] by blast
  have "for_loop p b (stack_of xs) (sk_SCT_num (stack_of xs)) 0 0 [''SCTs:\<newline>''] =
          run_slots p b (map Some xs) 0 [''SCTs:\<newline>'']"
    using for_loop_run_slots [of 0 p b "map Some xs" 0]
    by (simp add: stack_of_def sk_SCT_num_def)
  moreover have "snd (run_slots p b (map Some xs) 0 [''SCTs:\<newline>'']) = Inr (num_signed xs)"
    by (auto simp add: run_slots_verdict num_signed_def filter_map signed_slot_Some)
  ultimately show ?thesis using zero by (simp add: verdict_collection)
qed

theorem reject_if_none_ca_signed_witness:
  "[example_sct SCT_SOURCE_UNKNOWN 1, example_sct SCT_SOURCE_TLS_EXTENSION 2] \<noteq> [] \<and>
   sct_source (example_sct SCT_SOURCE_UNKNOWN 1) = SCT_SOURCE_UNKNOWN \<and>
   sct_source (example_sct SCT_SOURCE_TLS_EXTENSION 2) = SCT_SOURCE_TLS_EXTENSION \<and>
   snd (on_ct_validation print_timestamp True
          (stack_of [example_sct SCT_SOURCE_UNKNOWN 1,
                     example_sct SCT_SOURCE_TLS_EXTENSION 2])) = Inr 0"
  using reject_if_none_ca_signed
    [of "[example_sct SCT_SOURCE_UNKNOWN 1, example_sct SCT_SOURCE_TLS_EXTENSION 2]"
        print_timestamp True]
  by (simp add: example_sct_def)

text \<open>
  Claim C3. For the empty SCT collection \<open>on_ct_validation\<close> returns \<open>0\<close> (Reject).
\<close>

theorem reject_empty:
  "snd (on_ct_validation p b (stack_of [])) = Inr 0"
  by (simp add: stack_of_def on_ct_validation_empty)

text \<open>
  Claim C5. Two SCT collections of the same length that have the same source at each
  position get the same verdict, whatever their payloads are (and whatever is printed).
\<close>

theorem verdict_depends_on_sources_only:
  assumes "length xs = length ys"
    and "\<forall>i < length xs. sct_source (xs ! i) = sct_source (ys ! i)"
  shows "snd (on_ct_validation p b (stack_of xs)) = snd (on_ct_validation p' b' (stack_of ys))"
proof -
  have m: "map sct_source xs = map sct_source ys"
    using assms by (simp add: list_eq_iff_nth_eq)
  have "filter (\<lambda>sct. ca_signed (sct_source sct)) zs = [] \<longleftrightarrow>
          filter ca_signed (map sct_source zs) = []" for zs :: "SCT list"
    by (simp add: filter_empty_conv)
  then have "num_signed xs = 0 \<longleftrightarrow> num_signed ys = 0"
    using m by (simp add: num_signed_def)
  then show ?thesis by (simp add: verdict_collection)
qed

theorem verdict_depends_on_sources_only_witness:
  "length [example_sct SCT_SOURCE_X509V3_EXTENSION 1, example_sct SCT_SOURCE_TLS_EXTENSION 2] =
   length [example_sct SCT_SOURCE_X509V3_EXTENSION 7, example_sct SCT_SOURCE_TLS_EXTENSION 9] \<and>
   example_sct SCT_SOURCE_X509V3_EXTENSION 1 \<noteq> example_sct SCT_SOURCE_X509V3_EXTENSION 7 \<and>
   snd (on_ct_validation print_timestamp True
          (stack_of [example_sct SCT_SOURCE_X509V3_EXTENSION 1,
                     example_sct SCT_SOURCE_TLS_EXTENSION 2])) =
   snd (on_ct_validation print_timestamp False
          (stack_of [example_sct SCT_SOURCE_X509V3_EXTENSION 7,
                     example_sct SCT_SOURCE_TLS_EXTENSION 9]))"
proof -
  let ?xs = "[example_sct SCT_SOURCE_X509V3_EXTENSION 1, example_sct SCT_SOURCE_TLS_EXTENSION 2]"
  let ?ys = "[example_sct SCT_SOURCE_X509V3_EXTENSION 7, example_sct SCT_SOURCE_TLS_EXTENSION 9]"
  have len: "length ?xs = length ?ys" by simp
  have src: "\<forall>i < length ?xs. sct_source (?xs ! i) = sct_source (?ys ! i)"
    by (simp add: example_sct_def nth_Cons' less_Suc_eq numeral_2_eq_2)
  have payload: "example_sct SCT_SOURCE_X509V3_EXTENSION 1 \<noteq>
                 example_sct SCT_SOURCE_X509V3_EXTENSION 7"
    by (simp add: example_sct_def)
  show ?thesis
    using verdict_depends_on_sources_only [OF len src, of print_timestamp True print_timestamp False]
      len payload
    by simp
qed


text \<open>
  Claim C6. For every SCT collection and every permutation of it, \<open>on_ct_validation\<close>
  returns the same verdict on both.
\<close>

theorem verdict_permutation_invariant:
  assumes "mset xs = mset ys"
  shows "snd (on_ct_validation p b (stack_of xs)) = snd (on_ct_validation p b (stack_of ys))"
proof -
  have "num_signed zs = int (size (filter_mset (\<lambda>sct. ca_signed (sct_source sct)) (mset zs)))"
    for zs
    by (simp add: num_signed_def flip: mset_filter)
  then have "num_signed xs = num_signed ys" using assms by simp
  then show ?thesis by (simp add: verdict_collection)
qed

theorem verdict_permutation_invariant_witness:
  "mset [example_sct SCT_SOURCE_TLS_EXTENSION 2, example_sct SCT_SOURCE_X509V3_EXTENSION 1] =
   mset [example_sct SCT_SOURCE_X509V3_EXTENSION 1, example_sct SCT_SOURCE_TLS_EXTENSION 2] \<and>
   snd (on_ct_validation print_timestamp True
          (stack_of [example_sct SCT_SOURCE_TLS_EXTENSION 2,
                     example_sct SCT_SOURCE_X509V3_EXTENSION 1])) =
   snd (on_ct_validation print_timestamp True
          (stack_of [example_sct SCT_SOURCE_X509V3_EXTENSION 1,
                     example_sct SCT_SOURCE_TLS_EXTENSION 2]))"
proof -
  have perm:
    "mset [example_sct SCT_SOURCE_TLS_EXTENSION 2, example_sct SCT_SOURCE_X509V3_EXTENSION 1] =
     mset [example_sct SCT_SOURCE_X509V3_EXTENSION 1, example_sct SCT_SOURCE_TLS_EXTENSION 2]"
    by (simp add: add.commute)
  show ?thesis
    using verdict_permutation_invariant [OF perm, of print_timestamp True] perm by simp
qed

text \<open>
  Claim C9. If \<open>on_ct_validation\<close> returns \<open>1\<close> (Accept) on an SCT collection, it
  returns \<open>1\<close> on the collection with one more SCT appended, whatever the source of
  that SCT.
\<close>

theorem accept_monotone_append:
  assumes "snd (on_ct_validation p b (stack_of xs)) = Inr 1"
  shows "snd (on_ct_validation p b (stack_of (xs @ [sct]))) = Inr 1"
proof -
  have "num_signed xs \<noteq> 0"
    using assms by (simp add: verdict_collection split: if_splits)
  then have "\<exists>s \<in> set xs. ca_signed (sct_source s)" by (simp add: num_signed_pos_iff)
  then have "\<exists>s \<in> set (xs @ [sct]). ca_signed (sct_source s)" by auto
  then have "num_signed (xs @ [sct]) \<noteq> 0" by (simp only: num_signed_pos_iff)
  then show ?thesis by (simp add: verdict_collection)
qed

theorem accept_monotone_append_witness:
  "snd (on_ct_validation print_timestamp True
          (stack_of [example_sct SCT_SOURCE_X509V3_EXTENSION 1])) = Inr 1 \<and>
   snd (on_ct_validation print_timestamp True
          (stack_of ([example_sct SCT_SOURCE_X509V3_EXTENSION 1] @
                     [example_sct SCT_SOURCE_UNKNOWN 2]))) = Inr 1"
proof -
  have acc: "snd (on_ct_validation print_timestamp True
               (stack_of [example_sct SCT_SOURCE_X509V3_EXTENSION 1])) = Inr 1"
    by (simp add: verdict_collection num_signed_def ca_signed_def example_sct_def)
  show ?thesis
    using accept_monotone_append [OF acc, of "example_sct SCT_SOURCE_UNKNOWN 2"] acc by simp
qed

text \<open>
  Claim C10. If the stack reports a positive size \<^verbatim>\<open>num_sct\<close> and
  \<^verbatim>\<open>sk_SCT_value\<close> yields an SCT (not \<^verbatim>\<open>NULL\<close>) at every index from \<open>0\<close> up to
  \<^verbatim>\<open>num_sct\<close>, then the assertion of the loop never fails: the loop ends with a
  count, and \<open>on_ct_validation\<close> returns a verdict, \<open>0\<close> or \<open>1\<close>. (The loop is a
  total function: its termination is proved where it is defined.)
\<close>

theorem no_assertion_failure_if_all_present:
  assumes "0 < sk_SCT_num scts"
    and "\<forall>i. 0 \<le> i \<and> i < sk_SCT_num scts \<longrightarrow> sk_SCT_value scts i \<noteq> None"
  shows "(\<exists>k. snd (for_loop p b scts (sk_SCT_num scts) 0 0 [''SCTs:\<newline>'']) = Inr k) \<and>
         (snd (on_ct_validation p b scts) = Inr 0 \<or> snd (on_ct_validation p b scts) = Inr 1)"
proof -
  obtain ys where scts: "scts = Some ys" and ne: "ys \<noteq> []"
    using assms(1) by (cases scts) (auto simp add: sk_SCT_num_def)
  have "None \<notin> set ys"
  proof
    assume "None \<in> set ys"
    then obtain j where j: "j < length ys" and nth: "ys ! j = None"
      by (auto simp add: in_set_conv_nth)
    have "sk_SCT_value scts (int j) \<noteq> None"
      using assms(2) j scts by (simp add: sk_SCT_num_def)
    then show False using j nth scts by (simp add: sk_SCT_value_def)
  qed
  moreover have "for_loop p b scts (sk_SCT_num scts) 0 0 [''SCTs:\<newline>''] =
                   run_slots p b ys 0 [''SCTs:\<newline>'']"
    using for_loop_run_slots [of 0 p b ys 0] scts by (simp add: sk_SCT_num_def)
  ultimately show ?thesis
    using ne scts by (simp add: run_slots_verdict verdict_slots)
qed

theorem no_assertion_failure_if_all_present_witness:
  "0 < sk_SCT_num (Some [Some (example_sct SCT_SOURCE_TLS_EXTENSION 1),
                         Some (example_sct SCT_SOURCE_OCSP_STAPLED_RESPONSE 2)]) \<and>
   sk_SCT_value (Some [Some (example_sct SCT_SOURCE_TLS_EXTENSION 1),
                       Some (example_sct SCT_SOURCE_OCSP_STAPLED_RESPONSE 2)]) 0 \<noteq> None \<and>
   sk_SCT_value (Some [Some (example_sct SCT_SOURCE_TLS_EXTENSION 1),
                       Some (example_sct SCT_SOURCE_OCSP_STAPLED_RESPONSE 2)]) 1 \<noteq> None \<and>
   (snd (on_ct_validation print_timestamp True
           (Some [Some (example_sct SCT_SOURCE_TLS_EXTENSION 1),
                  Some (example_sct SCT_SOURCE_OCSP_STAPLED_RESPONSE 2)])) = Inr 0 \<or>
    snd (on_ct_validation print_timestamp True
           (Some [Some (example_sct SCT_SOURCE_TLS_EXTENSION 1),
                  Some (example_sct SCT_SOURCE_OCSP_STAPLED_RESPONSE 2)])) = Inr 1)"
proof -
  let ?scts = "Some [Some (example_sct SCT_SOURCE_TLS_EXTENSION 1),
                     Some (example_sct SCT_SOURCE_OCSP_STAPLED_RESPONSE 2)]"
  have num: "0 < sk_SCT_num ?scts" by (simp add: sk_SCT_num_def)
  have v0: "sk_SCT_value ?scts 0 \<noteq> None" and v1: "sk_SCT_value ?scts 1 \<noteq> None"
    by (simp_all add: sk_SCT_value_def)
  have all: "\<forall>i. 0 \<le> i \<and> i < sk_SCT_num ?scts \<longrightarrow> sk_SCT_value ?scts i \<noteq> None"
  proof (intro allI impI)
    fix i :: int
    assume "0 \<le> i \<and> i < sk_SCT_num ?scts"
    then have "i = 0 \<or> i = 1" by (auto simp add: sk_SCT_num_def)
    then show "sk_SCT_value ?scts i \<noteq> None" using v0 v1 by blast
  qed
  show ?thesis
    using no_assertion_failure_if_all_present [OF num all, of print_timestamp True] num v0 v1
    by simp
qed


section \<open>Failure\<close>

text \<open>
  Claim C7, as amended. For an absent (\<^verbatim>\<open>NULL\<close>) stack and for the empty collection
  \<open>on_ct_validation\<close> returns \<open>0\<close> (Reject); for every collection whose SCTs are all
  there it returns one of the two verdicts \<open>0\<close> and \<open>1\<close>; for a stack with a slot
  that is \<^verbatim>\<open>NULL\<close> the assertion of the loop fails, and no verdict is returned.
\<close>

theorem verdict_or_assertion_failure:
  "snd (on_ct_validation p b None) = Inr 0 \<and>
   snd (on_ct_validation p b (stack_of [])) = Inr 0 \<and>
   (snd (on_ct_validation p b (stack_of xs)) = Inr 0 \<or>
    snd (on_ct_validation p b (stack_of xs)) = Inr 1) \<and>
   snd (on_ct_validation p b (Some (ys @ None # zs))) = Inl AssertionFailed"
proof -
  have "snd (on_ct_validation p b None) = Inr 0"
    by (simp add: on_ct_validation_NULL)
  moreover have "snd (on_ct_validation p b (stack_of [])) = Inr 0"
    by (simp add: stack_of_def on_ct_validation_empty)
  moreover have "snd (on_ct_validation p b (stack_of xs)) = Inr 0 \<or>
                 snd (on_ct_validation p b (stack_of xs)) = Inr 1"
    by (simp add: verdict_collection)
  moreover have "snd (on_ct_validation p b (Some (ys @ None # zs))) = Inl AssertionFailed"
    by (simp add: verdict_slots)
  ultimately show ?thesis by blast
qed

text \<open>
  The claim as it was stated (every input yields a verdict, a malformed collection
  yields Reject) fails on a stack whose second slot is \<^verbatim>\<open>NULL\<close>: the callback does
  not return.
\<close>

theorem verdict_for_every_input_counterexample:
  "snd (on_ct_validation print_timestamp True
          (Some [Some (example_sct SCT_SOURCE_X509V3_EXTENSION 1), None])) =
   Inl AssertionFailed"
  by code_simp

section \<open>Registration\<close>

text \<open>
  Claim C8. \<open>configure_ct_lite_enforcement\<close> returns \<open>1\<close> (success) exactly when
  \<^verbatim>\<open>SSL_CTX_enable_ct\<close> succeeds and \<^verbatim>\<open>SSL_CTX_set_ct_validation_callback\<close>,
  called on the context that results with \<open>on_ct_validation\<close> as the callback, succeeds
  as well; otherwise it returns \<open>0\<close> (failure). The context it leaves is the one after
  both steps when the first succeeded, and the one after the first step when that failed.
\<close>

theorem configure_succeeds_iff_both_steps:
  "fst (configure_ct_lite_enforcement enable_ct set_callback ctx) =
     (if fst (enable_ct ctx SSL_CT_VALIDATION_STRICT) \<noteq> 0 \<and>
         fst (set_callback (snd (enable_ct ctx SSL_CT_VALIDATION_STRICT)) on_ct_validation) \<noteq> 0
      then 1 else 0) \<and>
   snd (configure_ct_lite_enforcement enable_ct set_callback ctx) =
     (if fst (enable_ct ctx SSL_CT_VALIDATION_STRICT) \<noteq> 0
      then snd (set_callback (snd (enable_ct ctx SSL_CT_VALIDATION_STRICT)) on_ct_validation)
      else snd (enable_ct ctx SSL_CT_VALIDATION_STRICT))"
  by (simp add: configure_ct_lite_enforcement_def split: prod.split)

theorem configure_succeeds_iff_both_steps_witness:
  "configure_ct_lite_enforcement (step_ok ''enable_ct'') (step_ok ''set_callback'') [] =
     (1, [''enable_ct'', ''set_callback'']) \<and>
   configure_ct_lite_enforcement (step_ok ''enable_ct'') step_fails [] = (0, [''enable_ct'']) \<and>
   configure_ct_lite_enforcement step_fails (step_ok ''set_callback'') [] = (0, [])"
proof -
  have "configure_ct_lite_enforcement (step_ok ''enable_ct'') (step_ok ''set_callback'') [] =
          (1, [''enable_ct'', ''set_callback''])"
    using configure_succeeds_iff_both_steps
      [of "step_ok ''enable_ct''" "step_ok ''set_callback''" "[]"]
    by (simp add: step_ok_def prod_eq_iff)
  moreover
  have "configure_ct_lite_enforcement (step_ok ''enable_ct'') step_fails [] =
          (0, [''enable_ct''])"
    using configure_succeeds_iff_both_steps [of "step_ok ''enable_ct''" step_fails "[]"]
    by (simp add: step_ok_def step_fails_def prod_eq_iff)
  moreover
  have "configure_ct_lite_enforcement step_fails (step_ok ''set_callback'') [] = (0, [])"
    using configure_succeeds_iff_both_steps [of step_fails "step_ok ''set_callback''" "[]"]
    by (simp add: step_ok_def step_fails_def prod_eq_iff)
  ultimately show ?thesis by blast
qed

section \<open>Diagnostic output\<close>

text \<open>
  Claim C4, as amended. For the empty collection the only output is the line that says
  no SCTs were received. For every non-empty SCT collection the output is the heading,
  then for every SCT, in order, its diagnostic record (the dump of its fields when the
  BIO for standard error could be created, and its classification line), then the final
  lines: when the verdict is Accept, a summary line with the total SCT count and the
  CA-signed count, and the line that says that SCT signatures have not been validated;
  when the verdict is Reject, a single line that gives the reason, without counts and
  without the statement about validation.
\<close>

theorem diagnostic_output_of_collection:
  "fst (on_ct_validation p b (stack_of xs)) =
     (if xs = [] then [''No SCTs received, not considering this connection valid\<newline>'']
      else ''SCTs:\<newline>'' # concat (map (diagnostic_record p b) xs) @
             final_lines (int (length xs)) (num_signed xs))"
proof (cases "xs = []")
  case True
  then show ?thesis by (simp add: stack_of_def on_ct_validation_empty)
next
  case False
  obtain err r where run: "run_slots p b (map Some xs) 0 [''SCTs:\<newline>''] = (err, r)"
    by (cases "run_slots p b (map Some xs) 0 [''SCTs:\<newline>'']")
  have r: "r = Inr (num_signed xs)"
    using run_slots_verdict [of p b "map Some xs" 0 "[''SCTs:\<newline>'']"] run
    by (auto simp add: num_signed_def filter_map signed_slot_Some)
  have e: "err = ''SCTs:\<newline>'' # concat (map (diagnostic_record p b) xs)"
    using run_slots_output [of p b xs 0 "[''SCTs:\<newline>'']"] run by simp
  show ?thesis
    using False by (simp add: stack_of_def on_ct_validation_slots run r e)
qed

theorem diagnostic_output_of_collection_witness:
  "fst (on_ct_validation print_timestamp True
          (stack_of [example_sct SCT_SOURCE_OCSP_STAPLED_RESPONSE 1,
                     example_sct SCT_SOURCE_TLS_EXTENSION 2,
                     example_sct SCT_SOURCE_UNKNOWN 3])) =
     [''SCTs:\<newline>'',
      ''  Timestamp   : 1'', ''\<newline>'',
      ''    ==> Got an SCT delivered via OCSP (CA-signed)\<newline>'',
      ''  Timestamp   : 2'', ''\<newline>'',
      ''    ==> Got an SCT delivered via TLS extension (not CA-signed)\<newline>'',
      ''  Timestamp   : 3'', ''\<newline>'',
      ''    ==> Got an SCT delivered via unknown source (assuming not CA-signed)\<newline>'',
      ''Got 3 SCTs of which 1 were via CA-signed channels, considering this connection valid\<newline>'',
      ''SCT signatures have NOT been validated\<newline>'']"
proof -
  let ?xs = "[example_sct SCT_SOURCE_OCSP_STAPLED_RESPONSE 1,
              example_sct SCT_SOURCE_TLS_EXTENSION 2,
              example_sct SCT_SOURCE_UNKNOWN 3]"
  have "fst (on_ct_validation print_timestamp True (stack_of ?xs)) =
          (if ?xs = [] then [''No SCTs received, not considering this connection valid\<newline>'']
           else ''SCTs:\<newline>'' # concat (map (diagnostic_record print_timestamp True) ?xs) @
                  final_lines (int (length ?xs)) (num_signed ?xs))"
    by (rule diagnostic_output_of_collection)
  also have "\<dots> =
     [''SCTs:\<newline>'',
      ''  Timestamp   : 1'', ''\<newline>'',
      ''    ==> Got an SCT delivered via OCSP (CA-signed)\<newline>'',
      ''  Timestamp   : 2'', ''\<newline>'',
      ''    ==> Got an SCT delivered via TLS extension (not CA-signed)\<newline>'',
      ''  Timestamp   : 3'', ''\<newline>'',
      ''    ==> Got an SCT delivered via unknown source (assuming not CA-signed)\<newline>'',
      ''Got 3 SCTs of which 1 were via CA-signed channels, considering this connection valid\<newline>'',
      ''SCT signatures have NOT been validated\<newline>'']"
    by code_simp
  finally show ?thesis .
qed

text \<open>
  The claim as it was stated (a summary line with the counts and the statement that
  signatures were not validated, whatever the verdict) fails on a collection of one SCT
  delivered by TLS extension: the verdict is Reject and the output ends with the reason.
\<close>

theorem diagnostics_regardless_of_verdict_counterexample:
  "on_ct_validation print_timestamp True (stack_of [example_sct SCT_SOURCE_TLS_EXTENSION 5]) =
     ([''SCTs:\<newline>'',
       ''  Timestamp   : 5'', ''\<newline>'',
       ''    ==> Got an SCT delivered via TLS extension (not CA-signed)\<newline>'',
       ''No SCTs were received via a CA-signed delivery method, not considering this connection valid\<newline>''],
      Inr 0) \<and>
   ''SCT signatures have NOT been validated\<newline>'' \<notin>
     set (fst (on_ct_validation print_timestamp True
                 (stack_of [example_sct SCT_SOURCE_TLS_EXTENSION 5])))"
  by code_simp

end
